theory Spec2Isabelle
  imports Main "HOL-Library.Word"
begin

section \<open>Data model of the MQTT client (source/mqtt.c)\<close>

type_synonym uint16_t = "16 word"
type_synonym uint64_t = "64 word"

text \<open>Return codes of the public operations.\<close>

datatype aws_op = AWS_OP_SUCCESS | AWS_OP_ERR

text \<open>
  The error codes registered by \<open>aws_mqtt_load_error_strings\<close>, in the order of the
  table \<open>s_errors\<close>. The numeric values live in a header that is not part of the
  sources, so the codes are kept by name.
\<close>

datatype aws_mqtt_error =
    AWS_ERROR_MQTT_INVALID_RESERVED_BITS
  | AWS_ERROR_MQTT_BUFFER_TOO_BIG
  | AWS_ERROR_MQTT_INVALID_REMAINING_LENGTH
  | AWS_ERROR_MQTT_UNSUPPORTED_PROTOCOL_NAME
  | AWS_ERROR_MQTT_UNSUPPORTED_PROTOCOL_LEVEL
  | AWS_ERROR_MQTT_INVALID_CREDENTIALS
  | AWS_ERROR_MQTT_INVALID_QOS
  | AWS_ERROR_MQTT_INVALID_PACKET_TYPE
  | AWS_ERROR_MQTT_TIMEOUT
  | AWS_ERROR_MQTT_PROTOCOL_ERROR

text \<open>
  The \<open>int error_code\<close> handed to \<open>mqtt_disconnect_impl\<close>: either 0 (the source
  passes \<open>AWS_OP_SUCCESS\<close>) or one of the MQTT codes.
\<close>

datatype error_code = Error_code_0 | Error_code_mqtt aws_mqtt_error

datatype aws_mqtt_qos =
    AWS_MQTT_QOS_AT_MOST_ONCE
  | AWS_MQTT_QOS_AT_LEAST_ONCE
  | AWS_MQTT_QOS_EXACTLY_ONCE

datatype aws_mqtt_client_connection_state =
    AWS_MQTT_CLIENT_STATE_CONNECTING
  | AWS_MQTT_CLIENT_STATE_CONNECTED
  | AWS_MQTT_CLIENT_STATE_RECONNECTING
  | AWS_MQTT_CLIENT_STATE_DISCONNECTING
  | AWS_MQTT_CLIENT_STATE_DISCONNECTED

text \<open>
  The packets the send functions initialise and hand to the encoder. The encoders are not
  part of the sources; a written message is identified with the packet structure that was
  encoded into it.
\<close>

datatype packet =
    Packet_publish bool aws_mqtt_qos bool string uint16_t string
      \<comment> \<open>retain, qos, dup, topic, message id, payload\<close>
  | Packet_subscribe uint16_t string aws_mqtt_qos
  | Packet_unsubscribe uint16_t string
  | Packet_pingreq

text \<open>
  What the connection does to its collaborators, in order: messages written to the channel
  slot, messages given back to the pool, calls of \<open>mqtt_disconnect_impl\<close>, and calls of
  the user's publish completion callback (callback pointer and user data as numbers).
\<close>

datatype event =
    Message_sent packet
  | Message_released
  | Disconnect_impl error_code
  | Publish_on_complete nat nat

text \<open>The function pointers a request carries.\<close>

datatype send_request_fn =
    S_subscribe_send | S_unsubscribe_send | S_publish_send | S_pingreq_send

datatype op_complete_fn = S_publish_complete

record aws_mqtt_subscription =
  topic_filter :: string
  sub_qos :: aws_mqtt_qos

record aws_mqtt_subscription_impl =
  callback :: nat
  user_data :: nat
  filter_str :: string
  subscription :: aws_mqtt_subscription

record publish_task_arg =
  topic :: string
  qos :: aws_mqtt_qos
  retain :: bool
  payload :: string
  on_complete :: "nat option"
  userdata :: nat

text \<open>
  The \<open>void *userdata\<close> of a request: one of the three things the source passes. The
  pointed-to record is held by value. The C record of a subscription is freed when its
  entry leaves the subscriptions table (\<open>s_mqtt_subscription_impl_destroy\<close>); a send
  function called again on such a record reads freed memory in C, which this value does
  not show.
\<close>

datatype request_userdata =
    Ud_subscription_impl aws_mqtt_subscription_impl
  | Ud_publish_arg publish_task_arg
  | Ud_connection

record aws_mqtt_outstanding_request =
  message_id :: uint16_t
  initiated :: bool
  completed :: bool
  cancelled :: bool
  send_request :: send_request_fn
  send_request_ud :: request_userdata
  req_on_complete :: "op_complete_fn option"

text \<open>
  The connection. \<open>slot\<close> is \<open>None\<close> for a NULL channel slot. \<open>subscriptions\<close> is the
  hash table keyed by the filter string (\<open>aws_hash_string\<close>, \<open>aws_string_eq\<close>: compared
  by content), \<open>outstanding_requests\<close> the hash table keyed by the 16-bit packet id
  (\<open>s_hash_uint16_t\<close>, \<open>s_uint16_t_eq\<close>: compared by value). \<open>events\<close> is not a field
  of the C structure: it records the calls made to the collaborators. \<open>pending_requests\<close>
  (the ids of the requests queued while offline) and \<open>request_id_counter\<close> (the counter of
  the packet-id allocation policy described by the spec) belong to the request tracker.
\<close>

record aws_mqtt_client_connection =
  state :: aws_mqtt_client_connection_state
  slot :: "nat option"
  client_id :: string
  clean_session :: bool
  keep_alive_time :: uint16_t
  subscriptions :: "string \<rightharpoonup> aws_mqtt_subscription_impl"
  outstanding_requests :: "uint16_t \<rightharpoonup> aws_mqtt_outstanding_request"
  pending_requests :: "uint16_t list"
  request_id_counter :: uint16_t
  last_pingresp_timestamp :: uint64_t
  events :: "event list"

text \<open>
  The outcome of every fallible call into a collaborator during one operation, the clock
  reading, and the constant \<open>request_timeout_ns\<close> (defined in a header that is not among
  the sources). Each operation makes each of these calls at most once.
\<close>

record env =
  mem_acquire_ok :: bool
  string_new_ok :: bool
  hash_table_put_ok :: bool
  request_acquire_ok :: bool
  packet_init_ok :: bool
  add_topic_ok :: bool
  get_message_ok :: bool
  encode_ok :: bool
  send_message_ok :: bool
  clock_time :: uint64_t
  request_timeout_ns :: uint64_t

section \<open>Collaborators\<close>

text \<open>
  Modelled from the spec: \<open>mqtt_disconnect_impl\<close> is declared in client_impl.h and its
  body is not among the sources. The spec says it transitions the connection to
  DISCONNECTING with the given error code; the call is also recorded.
\<close>

definition mqtt_disconnect_impl ::
  "aws_mqtt_client_connection \<Rightarrow> error_code \<Rightarrow> aws_mqtt_client_connection" where
  "mqtt_disconnect_impl connection code =
     connection\<lparr>state := AWS_MQTT_CLIENT_STATE_DISCONNECTING,
                events := events connection @ [Disconnect_impl code]\<rparr>"

definition send_message ::
  "aws_mqtt_client_connection \<Rightarrow> packet \<Rightarrow> aws_mqtt_client_connection" where
  "send_message connection p = connection\<lparr>events := events connection @ [Message_sent p]\<rparr>"

definition release_message :: "aws_mqtt_client_connection \<Rightarrow> aws_mqtt_client_connection" where
  "release_message connection = connection\<lparr>events := events connection @ [Message_released]\<rparr>"

section \<open>aws_mqtt_load_error_strings\<close>

record aws_error_info =
  info_code :: aws_mqtt_error
  error_str :: string
  lib_name :: string

definition AWS_DEFINE_ERROR_INFO_MQTT :: "aws_mqtt_error \<Rightarrow> string \<Rightarrow> aws_error_info" where
  "AWS_DEFINE_ERROR_INFO_MQTT C ES = \<lparr>info_code = C, error_str = ES, lib_name = ''libaws-c-mqtt''\<rparr>"

definition s_errors :: "aws_error_info list" where
  "s_errors =
    [AWS_DEFINE_ERROR_INFO_MQTT AWS_ERROR_MQTT_INVALID_RESERVED_BITS
       ''Bits marked as reserved in the MQTT spec were incorrectly set.'',
     AWS_DEFINE_ERROR_INFO_MQTT AWS_ERROR_MQTT_BUFFER_TOO_BIG
       ''[MQTT-1.5.3] Encoded UTF-8 buffers may be no bigger than 65535 bytes.'',
     AWS_DEFINE_ERROR_INFO_MQTT AWS_ERROR_MQTT_INVALID_REMAINING_LENGTH
       ''[MQTT-2.2.3] Encoded remaining length field is malformed.'',
     AWS_DEFINE_ERROR_INFO_MQTT AWS_ERROR_MQTT_UNSUPPORTED_PROTOCOL_NAME
       ''[MQTT-3.1.2-1] Protocol name specified is unsupported.'',
     AWS_DEFINE_ERROR_INFO_MQTT AWS_ERROR_MQTT_UNSUPPORTED_PROTOCOL_LEVEL
       ''[MQTT-3.1.2-2] Protocol level specified is unsupported.'',
     AWS_DEFINE_ERROR_INFO_MQTT AWS_ERROR_MQTT_INVALID_CREDENTIALS
       ''[MQTT-3.1.2-21] Connect packet may not include password when no username is present.'',
     AWS_DEFINE_ERROR_INFO_MQTT AWS_ERROR_MQTT_INVALID_QOS
       ''Both bits in a QoS field must not be set.'',
     AWS_DEFINE_ERROR_INFO_MQTT AWS_ERROR_MQTT_INVALID_PACKET_TYPE
       ''Packet type in packet fixed header is invalid.'',
     AWS_DEFINE_ERROR_INFO_MQTT AWS_ERROR_MQTT_TIMEOUT
       ''Time limit between request and response has been exceeded.'',
     AWS_DEFINE_ERROR_INFO_MQTT AWS_ERROR_MQTT_PROTOCOL_ERROR
       ''Protocol error occured.'']"

text \<open>
  The process-wide state the function touches: its static flag and the lists handed to
  \<open>aws_register_error_info\<close> so far.
\<close>

record process_state =
  s_error_strings_loaded :: bool
  registered :: "aws_error_info list list"

definition process_start :: process_state where
  "process_start = \<lparr>s_error_strings_loaded = False, registered = []\<rparr>"

definition aws_register_error_info :: "aws_error_info list \<Rightarrow> process_state \<Rightarrow> process_state" where
  "aws_register_error_info s_list p = p\<lparr>registered := registered p @ [s_list]\<rparr>"

definition aws_mqtt_load_error_strings :: "process_state \<Rightarrow> process_state" where
  "aws_mqtt_load_error_strings p =
     (if \<not> s_error_strings_loaded p
      then aws_register_error_info s_errors (p\<lparr>s_error_strings_loaded := True\<rparr>)
      else p)"

section \<open>aws_mqtt_client_connection_disconnect\<close>

definition aws_mqtt_client_connection_disconnect ::
  "aws_mqtt_client_connection option \<Rightarrow> aws_op \<times> aws_mqtt_client_connection option" where
  "aws_mqtt_client_connection_disconnect connection =
     (case connection of
        None \<Rightarrow> (AWS_OP_SUCCESS, None)
      | Some c \<Rightarrow>
          (if slot c \<noteq> None
           then (AWS_OP_SUCCESS, Some (mqtt_disconnect_impl c Error_code_0))
           else (AWS_OP_SUCCESS, Some c)))"

section \<open>The send functions\<close>

text \<open>
  A send function returns \<open>true\<close> when the request is to be considered done and
  \<open>false\<close> when it stays outstanding. The result is \<open>None\<close> where the C code
  uses \<open>connection->slot\<close> while it is NULL: it dereferences the slot for its channel
  (to release a message, to read the clock) or hands it to
  \<open>aws_channel_slot_send_message\<close>. After a message has been acquired every path does
  one or the other.
\<close>

definition s_pingreq_send ::
  "env \<Rightarrow> uint16_t \<Rightarrow> bool \<Rightarrow> aws_mqtt_client_connection
    \<Rightarrow> (bool \<times> aws_mqtt_client_connection) option" where
  "s_pingreq_send e msg_id is_first_attempt connection =
     (if is_first_attempt then
        (if \<not> get_message_ok e then Some (True, connection)
         else if slot connection = None then None
         else if \<not> encode_ok e then Some (True, release_message connection)
         else if \<not> send_message_ok e then Some (True, release_message connection)
         else Some (False, send_message connection Packet_pingreq))
      else
        (if slot connection = None then None
         else
           (let current_time = clock_time e in
            if current_time - last_pingresp_timestamp connection > request_timeout_ns e
            then Some (True, mqtt_disconnect_impl connection (Error_code_mqtt AWS_ERROR_MQTT_TIMEOUT))
            else Some (True, connection))))"

definition s_subscribe_send ::
  "env \<Rightarrow> uint16_t \<Rightarrow> bool \<Rightarrow> aws_mqtt_subscription_impl \<Rightarrow> aws_mqtt_client_connection
    \<Rightarrow> (bool \<times> aws_mqtt_client_connection) option" where
  "s_subscribe_send e msg_id is_first_attempt subscription_impl connection =
     (if \<not> packet_init_ok e then Some (True, connection)
      else if \<not> add_topic_ok e then Some (True, connection)
      else if \<not> get_message_ok e then Some (True, connection)
      else if slot connection = None then None
      else if \<not> encode_ok e then Some (True, release_message connection)
      else if \<not> send_message_ok e then Some (True, release_message connection)
      else Some (False, send_message connection
             (Packet_subscribe msg_id (topic_filter (subscription subscription_impl))
                (sub_qos (subscription subscription_impl)))))"

definition aws_hash_table_remove :: "('k \<rightharpoonup> 'v) \<Rightarrow> 'k \<Rightarrow> ('k \<rightharpoonup> 'v)" where
  "aws_hash_table_remove tbl k = tbl(k := None)"

definition remove_subscription ::
  "aws_mqtt_subscription_impl \<Rightarrow> aws_mqtt_client_connection \<Rightarrow> aws_mqtt_client_connection" where
  "remove_subscription subscription_impl connection =
     connection\<lparr>subscriptions :=
       aws_hash_table_remove (subscriptions connection) (filter_str subscription_impl)\<rparr>"

definition s_unsubscribe_send ::
  "env \<Rightarrow> uint16_t \<Rightarrow> bool \<Rightarrow> aws_mqtt_subscription_impl \<Rightarrow> aws_mqtt_client_connection
    \<Rightarrow> (bool \<times> aws_mqtt_client_connection) option" where
  "s_unsubscribe_send e msg_id is_first_attempt subscription_impl connection =
     (if \<not> packet_init_ok e then Some (True, remove_subscription subscription_impl connection)
      else if \<not> add_topic_ok e then Some (True, remove_subscription subscription_impl connection)
      else if \<not> get_message_ok e then Some (True, remove_subscription subscription_impl connection)
      else if slot connection = None then None
      else if \<not> encode_ok e then
        Some (True, remove_subscription subscription_impl (release_message connection))
      else if \<not> send_message_ok e then
        Some (True, remove_subscription subscription_impl (release_message connection))
      else Some (False, remove_subscription subscription_impl
             (send_message connection
                (Packet_unsubscribe msg_id (topic_filter (subscription subscription_impl))))))"

definition s_publish_send ::
  "env \<Rightarrow> uint16_t \<Rightarrow> bool \<Rightarrow> publish_task_arg \<Rightarrow> aws_mqtt_client_connection
    \<Rightarrow> (bool \<times> aws_mqtt_client_connection) option" where
  "s_publish_send e msg_id is_first_attempt publish_arg connection =
     (let is_qos_0 = (qos publish_arg = AWS_MQTT_QOS_AT_MOST_ONCE);
          msg_id' = (if is_qos_0 then 0 else msg_id);
          publish = Packet_publish (retain publish_arg) (qos publish_arg) (\<not> is_first_attempt)
                      (topic publish_arg) msg_id' (payload publish_arg)
      in if \<not> get_message_ok e then Some (True, connection)
         else if slot connection = None then None
         else if \<not> encode_ok e then Some (True, release_message connection)
         else if \<not> send_message_ok e then Some (True, release_message connection)
         else Some (is_qos_0, send_message connection publish))"

definition s_publish_complete ::
  "publish_task_arg \<Rightarrow> aws_mqtt_client_connection \<Rightarrow> aws_mqtt_client_connection" where
  "s_publish_complete publish_arg connection =
     (case on_complete publish_arg of
        Some f \<Rightarrow> connection\<lparr>events := events connection @ [Publish_on_complete f (userdata publish_arg)]\<rparr>
      | None \<Rightarrow> connection)"

section \<open>The request tracker\<close>

text \<open>
  Calling through the function pointers of a request. A pointer applied to user data of
  the wrong kind has no defined behaviour (\<open>None\<close>); the source never builds such a pair.
\<close>

fun call_send_request ::
  "env \<Rightarrow> send_request_fn \<Rightarrow> uint16_t \<Rightarrow> bool \<Rightarrow> request_userdata
    \<Rightarrow> aws_mqtt_client_connection \<Rightarrow> (bool \<times> aws_mqtt_client_connection) option" where
  "call_send_request e S_subscribe_send i first (Ud_subscription_impl impl) c =
     s_subscribe_send e i first impl c"
| "call_send_request e S_unsubscribe_send i first (Ud_subscription_impl impl) c =
     s_unsubscribe_send e i first impl c"
| "call_send_request e S_publish_send i first (Ud_publish_arg arg) c =
     s_publish_send e i first arg c"
| "call_send_request e S_pingreq_send i first Ud_connection c =
     s_pingreq_send e i first c"
| "call_send_request e _ i first _ c = None"

fun call_on_complete ::
  "op_complete_fn \<Rightarrow> request_userdata \<Rightarrow> aws_mqtt_client_connection
    \<Rightarrow> aws_mqtt_client_connection option" where
  "call_on_complete S_publish_complete (Ud_publish_arg arg) c = Some (s_publish_complete arg c)"
| "call_on_complete S_publish_complete _ c = None"

text \<open>
  Modelled from the spec: the packet-id allocation of \<open>mqtt_create_request\<close>, whose body
  is not among the sources. The spec gives the id space 1..65535 and the policy: a
  monotonic counter with wrap-around, skipping the values currently in the
  outstanding-request index. The search gives up after 65535 candidates.
\<close>

fun find_free_id :: "nat \<Rightarrow> uint16_t \<Rightarrow> (uint16_t \<rightharpoonup> 'a) \<Rightarrow> uint16_t option" where
  "find_free_id 0 cur tbl = None"
| "find_free_id (Suc n) cur tbl =
     (let cand = (if cur + 1 = 0 then 1 else cur + 1)
      in if tbl cand = None then Some cand else find_free_id n cand tbl)"

text \<open>
  Modelled from the spec: the tracker removes the entry of a finished request and calls
  its completion callback, if it has one.
\<close>

definition request_finish ::
  "aws_mqtt_client_connection \<Rightarrow> uint16_t \<Rightarrow> aws_mqtt_client_connection option" where
  "request_finish c i =
     (case outstanding_requests c i of
        None \<Rightarrow> Some c
      | Some r \<Rightarrow>
          (let c1 = c\<lparr>outstanding_requests := (outstanding_requests c)(i := None),
                      pending_requests := removeAll i (pending_requests c)\<rparr>
           in case req_on_complete r of
                None \<Rightarrow> Some c1
              | Some f \<Rightarrow> call_on_complete f (send_request_ud r) c1))"

text \<open>
  Modelled from the spec: the tracker invokes the send function of an outstanding request
  (on creation while connected, when the pending queue is drained, and when the request's
  timer expires). A send function that reports the request done has the entry removed and
  the completion callback called; otherwise the request stays outstanding.
\<close>

definition request_invoke ::
  "env \<Rightarrow> aws_mqtt_client_connection \<Rightarrow> uint16_t \<Rightarrow> bool \<Rightarrow> aws_mqtt_client_connection option" where
  "request_invoke e c i first =
     (case outstanding_requests c i of
        None \<Rightarrow> Some c
      | Some r \<Rightarrow>
          (case call_send_request e (send_request r) i first (send_request_ud r) c of
             None \<Rightarrow> None
           | Some (done, c') \<Rightarrow>
               if done then request_finish c' i
               else Some (c'\<lparr>outstanding_requests :=
                                (outstanding_requests c')(i \<mapsto> r\<lparr>initiated := True\<rparr>),
                              pending_requests := removeAll i (pending_requests c')\<rparr>)))"

text \<open>
  Modelled from the spec: \<open>mqtt_create_request\<close> (declared in client_impl.h: registers a
  new outstanding request, calls the send function and returns the message identifier to
  use, or 0 on error). While the connection is not CONNECTED the request is queued
  instead of being dispatched.
\<close>

definition mqtt_create_request ::
  "env \<Rightarrow> aws_mqtt_client_connection \<Rightarrow> send_request_fn \<Rightarrow> op_complete_fn option
    \<Rightarrow> request_userdata \<Rightarrow> (uint16_t \<times> aws_mqtt_client_connection) option" where
  "mqtt_create_request e c send_fn complete_fn ud =
     (if \<not> request_acquire_ok e then Some (0, c)
      else
        (case find_free_id 65535 (request_id_counter c) (outstanding_requests c) of
           None \<Rightarrow> Some (0, c)
         | Some i \<Rightarrow>
             (let r = \<lparr>message_id = i, initiated = False, completed = False, cancelled = False,
                       send_request = send_fn, send_request_ud = ud,
                       req_on_complete = complete_fn\<rparr>;
                  c1 = c\<lparr>outstanding_requests := (outstanding_requests c)(i \<mapsto> r),
                         request_id_counter := i\<rparr>
              in if state c1 \<noteq> AWS_MQTT_CLIENT_STATE_CONNECTED
                 then Some (i, c1\<lparr>pending_requests := pending_requests c1 @ [i]\<rparr>)
                 else map_option (\<lambda>c2. (i, c2)) (request_invoke e c1 i True))))"

text \<open>
  Modelled from the spec: \<open>mqtt_request_complete\<close>, called when an acknowledgement comes
  back from the server. Unknown message ids are dropped silently.
\<close>

definition mqtt_request_complete ::
  "aws_mqtt_client_connection \<Rightarrow> error_code \<Rightarrow> uint16_t \<Rightarrow> aws_mqtt_client_connection option" where
  "mqtt_request_complete c code i = request_finish c i"

section \<open>The public operations\<close>

text \<open>
  \<open>aws_hash_table_put\<close> of the common library: on success the value is stored under the
  key and \<open>was_created\<close> tells whether the key is new; on failure nothing changes and
  \<open>was_created\<close> keeps its initial 0. The result is (succeeded, was_created, table).
\<close>

definition aws_hash_table_put ::
  "bool \<Rightarrow> ('k \<rightharpoonup> 'v) \<Rightarrow> 'k \<Rightarrow> 'v \<Rightarrow> bool \<times> bool \<times> ('k \<rightharpoonup> 'v)" where
  "aws_hash_table_put ok tbl k v =
     (if ok then (True, tbl k = None, tbl(k \<mapsto> v)) else (False, False, tbl))"

text \<open>The \<open>handle_error\<close> label of \<open>aws_mqtt_client_subscribe\<close>.\<close>

definition subscribe_handle_error ::
  "aws_mqtt_client_connection \<Rightarrow> string \<Rightarrow> bool \<Rightarrow> aws_op \<times> aws_mqtt_client_connection" where
  "subscribe_handle_error connection flt was_created =
     (AWS_OP_ERR,
      if was_created
      then connection\<lparr>subscriptions := aws_hash_table_remove (subscriptions connection) flt\<rparr>
      else connection)"

definition aws_mqtt_client_subscribe ::
  "env \<Rightarrow> aws_mqtt_client_connection \<Rightarrow> aws_mqtt_subscription \<Rightarrow> nat \<Rightarrow> nat
    \<Rightarrow> (aws_op \<times> aws_mqtt_client_connection) option" where
  "aws_mqtt_client_subscribe e connection sub cb ud =
     (if \<not> mem_acquire_ok e then Some (subscribe_handle_error connection [] False)
      else if \<not> string_new_ok e then Some (subscribe_handle_error connection [] False)
      else
        (let subscription_impl =
               \<lparr>callback = cb, user_data = ud, filter_str = topic_filter sub,
                subscription = \<lparr>topic_filter = topic_filter sub, sub_qos = sub_qos sub\<rparr>\<rparr>;
             (ok, was_created, tbl) =
               aws_hash_table_put (hash_table_put_ok e) (subscriptions connection)
                 (filter_str subscription_impl) subscription_impl;
             connection' = connection\<lparr>subscriptions := tbl\<rparr>
         in if \<not> ok
            then Some (subscribe_handle_error connection' (filter_str subscription_impl) was_created)
            else
              (case mqtt_create_request e connection' S_subscribe_send None
                      (Ud_subscription_impl subscription_impl) of
                 None \<Rightarrow> None
               | Some (_, c) \<Rightarrow> Some (AWS_OP_SUCCESS, c))))"

definition aws_mqtt_client_unsubscribe ::
  "env \<Rightarrow> aws_mqtt_client_connection \<Rightarrow> string
    \<Rightarrow> (aws_op \<times> aws_mqtt_client_connection) option" where
  "aws_mqtt_client_unsubscribe e connection flt =
     (if \<not> string_new_ok e then Some (AWS_OP_ERR, connection)
      else
        (case subscriptions connection flt of
           None \<Rightarrow> Some (AWS_OP_ERR, connection)
         | Some elem_value \<Rightarrow>
             (case mqtt_create_request e connection S_unsubscribe_send None
                     (Ud_subscription_impl elem_value) of
                None \<Rightarrow> None
              | Some (_, c) \<Rightarrow> Some (AWS_OP_SUCCESS, c))))"

definition aws_mqtt_client_publish ::
  "env \<Rightarrow> aws_mqtt_client_connection \<Rightarrow> string \<Rightarrow> aws_mqtt_qos \<Rightarrow> bool \<Rightarrow> string
    \<Rightarrow> nat option \<Rightarrow> nat \<Rightarrow> (aws_op \<times> aws_mqtt_client_connection) option" where
  "aws_mqtt_client_publish e connection tp q rt pl on_compl ud =
     (if \<not> mem_acquire_ok e then Some (AWS_OP_ERR, connection)
      else
        (let arg = \<lparr>topic = tp, qos = q, retain = rt, payload = pl,
                    on_complete = on_compl, userdata = ud\<rparr>
         in case mqtt_create_request e connection S_publish_send (Some S_publish_complete)
                   (Ud_publish_arg arg) of
              None \<Rightarrow> None
            | Some (_, c) \<Rightarrow> Some (AWS_OP_SUCCESS, c)))"

definition aws_mqtt_client_ping ::
  "env \<Rightarrow> aws_mqtt_client_connection \<Rightarrow> (aws_op \<times> aws_mqtt_client_connection) option" where
  "aws_mqtt_client_ping e connection =
     (case mqtt_create_request e connection S_pingreq_send None Ud_connection of
        None \<Rightarrow> None
      | Some (_, c) \<Rightarrow> Some (AWS_OP_SUCCESS, c))"

section \<open>aws_mqtt_client_connection_new\<close>

text \<open>The outcomes of the fallible steps of the constructor, in the order of the source.\<close>

record new_env =
  connection_acquire_ok :: bool
  subscriptions_init_ok :: bool
  requests_pool_init_ok :: bool
  outstanding_requests_init_ok :: bool
  new_socket_channel_ok :: bool

text \<open>
  The constructor returns NULL (\<open>None\<close>) when a step fails (after calling the user's
  \<open>on_connection_failed\<close> callback and releasing what it had set up), and otherwise the
  zeroed structure with the fields it sets: state CONNECTING, the session parameters, and
  two empty hash tables.
\<close>

definition aws_mqtt_client_connection_new ::
  "new_env \<Rightarrow> string \<Rightarrow> bool \<Rightarrow> uint16_t \<Rightarrow> aws_mqtt_client_connection option" where
  "aws_mqtt_client_connection_new ne cid clean keep_alive =
     (if \<not> connection_acquire_ok ne then None
      else if \<not> subscriptions_init_ok ne then None
      else if \<not> requests_pool_init_ok ne then None
      else if \<not> outstanding_requests_init_ok ne then None
      else if \<not> new_socket_channel_ok ne then None
      else Some \<lparr>state = AWS_MQTT_CLIENT_STATE_CONNECTING, slot = None, client_id = cid,
                  clean_session = clean, keep_alive_time = keep_alive,
                  subscriptions = Map.empty, outstanding_requests = Map.empty,
                  pending_requests = [], request_id_counter = 0,
                  last_pingresp_timestamp = 0, events = []\<rparr>)"

section \<open>Sequences of operations\<close>

text \<open>
  Modelled from the spec: the events in the life of a connection. Besides the public
  operations of mqtt.c there are three kinds of steps of the channel handler, whose body is
  not among the sources: \<open>Op_request_complete\<close> is an acknowledgement arriving,
  \<open>Op_request_invoke\<close> the tracker calling a send function (retry timer, draining of
  the pending queue), and \<open>Op_fsm\<close> the handler setting the connection state, the slot
  and the time of the last PINGRESP, to any values.
\<close>

datatype operation =
    Op_subscribe env aws_mqtt_subscription nat nat
  | Op_unsubscribe env string
  | Op_publish env string aws_mqtt_qos bool string "nat option" nat
  | Op_ping env
  | Op_disconnect
  | Op_request_complete error_code uint16_t
  | Op_request_invoke env uint16_t bool
  | Op_fsm aws_mqtt_client_connection_state "nat option" uint64_t

fun apply_operation ::
  "operation \<Rightarrow> aws_mqtt_client_connection \<Rightarrow> aws_mqtt_client_connection option" where
  "apply_operation (Op_subscribe e sub cb ud) c =
     map_option snd (aws_mqtt_client_subscribe e c sub cb ud)"
| "apply_operation (Op_unsubscribe e flt) c =
     map_option snd (aws_mqtt_client_unsubscribe e c flt)"
| "apply_operation (Op_publish e tp q rt pl oc ud) c =
     map_option snd (aws_mqtt_client_publish e c tp q rt pl oc ud)"
| "apply_operation (Op_ping e) c = map_option snd (aws_mqtt_client_ping e c)"
| "apply_operation Op_disconnect c = snd (aws_mqtt_client_connection_disconnect (Some c))"
| "apply_operation (Op_request_complete code i) c = mqtt_request_complete c code i"
| "apply_operation (Op_request_invoke e i first) c = request_invoke e c i first"
| "apply_operation (Op_fsm st sl t) c =
     Some (c\<lparr>state := st, slot := sl, last_pingresp_timestamp := t\<rparr>)"

fun run ::
  "operation list \<Rightarrow> aws_mqtt_client_connection \<Rightarrow> aws_mqtt_client_connection option" where
  "run [] c = Some c"
| "run (x # xs) c = (case apply_operation x c of None \<Rightarrow> None | Some c' \<Rightarrow> run xs c')"

section \<open>Notions used in the properties\<close>

text \<open>The packets written to the channel so far, oldest first.\<close>

definition messages_sent :: "aws_mqtt_client_connection \<Rightarrow> packet list" where
  "messages_sent c =
     concat (map (\<lambda>ev. case ev of Message_sent p \<Rightarrow> [p] | _ \<Rightarrow> []) (events c))"

text \<open>
  The outcome of a send function records a call \<open>mqtt_disconnect_impl(connection,
  AWS_ERROR_MQTT_TIMEOUT)\<close> made on connection \<open>c\<close>.
\<close>

definition timeout_disconnect_issued ::
  "aws_mqtt_client_connection \<Rightarrow> (bool \<times> aws_mqtt_client_connection) option \<Rightarrow> bool" where
  "timeout_disconnect_issued c res =
     (case res of
        None \<Rightarrow> False
      | Some (_, c') \<Rightarrow>
          events c' = events c @ [Disconnect_impl (Error_code_mqtt AWS_ERROR_MQTT_TIMEOUT)])"

text \<open>
  The keep-alive condition in the words of the specification: the broker produced a
  PINGRESP (received at \<open>pingresp_received\<close>) within \<open>timeout\<close> of the PINGREQ sent at
  \<open>pingreq_sent\<close>.
\<close>

definition pingresp_within_timeout :: "uint64_t \<Rightarrow> uint64_t \<Rightarrow> uint64_t \<Rightarrow> bool" where
  "pingresp_within_timeout pingreq_sent pingresp_received timeout =
     (unat pingreq_sent \<le> unat pingresp_received \<and>
      unat pingresp_received \<le> unat pingreq_sent + unat timeout)"

text \<open>
  Malformed topic filters in the words of the specification: the filter is split on
  \<open>/\<close> (empty levels kept); it is malformed when \<open>#\<close> is a level other than the last,
  or a level holds \<open>+\<close> or \<open>#\<close> together with other characters.
\<close>

fun split_levels :: "string \<Rightarrow> string list" where
  "split_levels [] = [[]]"
| "split_levels (ch # cs) =
     (if ch = CHR ''/'' then [] # split_levels cs
      else (case split_levels cs of
              [] \<Rightarrow> [[ch]]
            | lv # lvs \<Rightarrow> (ch # lv) # lvs))"

definition wildcard_mid_level :: "string \<Rightarrow> bool" where
  "wildcard_mid_level lv =
     ((CHR ''+'' \<in> set lv \<or> CHR ''#'' \<in> set lv) \<and> length lv \<noteq> 1)"

definition filter_malformed :: "string \<Rightarrow> bool" where
  "filter_malformed flt =
     (let lvs = split_levels flt
      in ''#'' \<in> set (butlast lvs) \<or> list_ex wildcard_mid_level lvs)"

text \<open>
  The invariant of the outstanding-request index: every entry is stored under its own
  message id, and that id is not 0.
\<close>

definition requests_inv :: "aws_mqtt_client_connection \<Rightarrow> bool" where
  "requests_inv c =
     (\<forall>i r. outstanding_requests c i = Some r \<longrightarrow> i \<noteq> 0 \<and> message_id r = i)"

section \<open>Concrete inputs\<close>

definition example_env :: env where
  "example_env =
     \<lparr>mem_acquire_ok = True, string_new_ok = True, hash_table_put_ok = True,
      request_acquire_ok = True, packet_init_ok = True, add_topic_ok = True,
      get_message_ok = True, encode_ok = True, send_message_ok = True,
      clock_time = 6100, request_timeout_ns = 1000\<rparr>"

definition example_connection :: aws_mqtt_client_connection where
  "example_connection =
     \<lparr>state = AWS_MQTT_CLIENT_STATE_CONNECTED, slot = Some 1, client_id = ''client'',
      clean_session = True, keep_alive_time = 5,
      subscriptions = Map.empty, outstanding_requests = Map.empty,
      pending_requests = [], request_id_counter = 0,
      last_pingresp_timestamp = 5050, events = []\<rparr>"

definition example_publish_arg :: publish_task_arg where
  "example_publish_arg =
     \<lparr>topic = ''t'', qos = AWS_MQTT_QOS_AT_MOST_ONCE, retain = False, payload = ''p'',
      on_complete = Some 3, userdata = 4\<rparr>"

definition example_ping_request :: "uint16_t \<Rightarrow> bool \<Rightarrow> aws_mqtt_outstanding_request" where
  "example_ping_request i ini =
     \<lparr>message_id = i, initiated = ini, completed = False, cancelled = False,
      send_request = S_pingreq_send, send_request_ud = Ud_connection,
      req_on_complete = None\<rparr>"

text \<open>\<open>example_connection\<close> after a ping whose PINGREQ was written.\<close>

definition example_ping_sent :: aws_mqtt_client_connection where
  "example_ping_sent =
     example_connection\<lparr>
       outstanding_requests := [1 \<mapsto> example_ping_request 1 True],
       request_id_counter := 1,
       events := [Message_sent Packet_pingreq]\<rparr>"

definition example_new_env :: new_env where
  "example_new_env =
     \<lparr>connection_acquire_ok = True, subscriptions_init_ok = True,
      requests_pool_init_ok = True, outstanding_requests_init_ok = True,
      new_socket_channel_ok = True\<rparr>"

definition example_new_connection :: aws_mqtt_client_connection where
  "example_new_connection =
     \<lparr>state = AWS_MQTT_CLIENT_STATE_CONNECTING, slot = None, client_id = ''client'',
      clean_session = True, keep_alive_time = 5,
      subscriptions = Map.empty, outstanding_requests = Map.empty,
      pending_requests = [], request_id_counter = 0,
      last_pingresp_timestamp = 0, events = []\<rparr>"

text \<open>The new connection after two pings issued before the connection is up.\<close>

definition example_two_pings :: aws_mqtt_client_connection where
  "example_two_pings =
     example_new_connection\<lparr>
       outstanding_requests :=
         [1 \<mapsto> example_ping_request 1 False, 2 \<mapsto> example_ping_request 2 False],
       pending_requests := [1, 2],
       request_id_counter := 2\<rparr>"

section \<open>aws_mqtt_load_error_strings registers once\<close>

lemma load_error_strings_twice:
  "aws_mqtt_load_error_strings (aws_mqtt_load_error_strings p) = aws_mqtt_load_error_strings p"
  by (simp add: aws_mqtt_load_error_strings_def aws_register_error_info_def)

lemma load_error_strings_repeated:
  "(aws_mqtt_load_error_strings ^^ Suc n) p = aws_mqtt_load_error_strings p"
  by (induction n) (simp_all add: load_error_strings_twice)

text \<open>
  Claim C7. However many times \<open>aws_mqtt_load_error_strings\<close> is called in a process
  (at least once), the error table has been handed to \<open>aws_register_error_info\<close>
  exactly once: the state after \<open>n + 1\<close> calls is the state after the first call, which
  holds the single registration of \<open>s_errors\<close>; and in any state a second call changes
  nothing.
\<close>

theorem load_error_strings_registers_once:
  "registered ((aws_mqtt_load_error_strings ^^ Suc n) process_start) = [s_errors]
   \<and> (aws_mqtt_load_error_strings ^^ Suc n) process_start
       = aws_mqtt_load_error_strings process_start
   \<and> aws_mqtt_load_error_strings (aws_mqtt_load_error_strings p)
       = aws_mqtt_load_error_strings p"
proof -
  have "registered (aws_mqtt_load_error_strings process_start) = [s_errors]"
    by (simp add: aws_mqtt_load_error_strings_def aws_register_error_info_def
        process_start_def)
  then show ?thesis
    using load_error_strings_repeated[of n process_start] load_error_strings_twice[of p]
    by simp
qed

section \<open>Disconnect without a connection or a slot\<close>

text \<open>
  Claim C9. \<open>aws_mqtt_client_connection_disconnect\<close> on a NULL connection, or on a
  connection without a channel slot, returns \<open>AWS_OP_SUCCESS\<close> and changes nothing;
  \<open>mqtt_disconnect_impl\<close> is called (with code 0) exactly when the connection and its
  slot are both there, and that call does change the connection.
\<close>

theorem disconnect_without_slot_is_noop:
  "(connection = None \<or> (\<exists>c. connection = Some c \<and> slot c = None)
      \<longrightarrow> aws_mqtt_client_connection_disconnect connection = (AWS_OP_SUCCESS, connection))
   \<and> (\<forall>c. connection = Some c \<and> slot c \<noteq> None
      \<longrightarrow> aws_mqtt_client_connection_disconnect connection
            = (AWS_OP_SUCCESS, Some (mqtt_disconnect_impl c Error_code_0))
          \<and> events (mqtt_disconnect_impl c Error_code_0)
            = events c @ [Disconnect_impl Error_code_0])"
  by (auto simp: aws_mqtt_client_connection_disconnect_def mqtt_disconnect_impl_def)

theorem disconnect_without_slot_is_noop_witness:
  "aws_mqtt_client_connection_disconnect None = (AWS_OP_SUCCESS, None)
   \<and> aws_mqtt_client_connection_disconnect (Some (example_connection\<lparr>slot := None\<rparr>))
       = (AWS_OP_SUCCESS, Some (example_connection\<lparr>slot := None\<rparr>))
   \<and> aws_mqtt_client_connection_disconnect (Some example_connection)
       = (AWS_OP_SUCCESS, Some (mqtt_disconnect_impl example_connection Error_code_0))"
  using disconnect_without_slot_is_noop[of None]
    disconnect_without_slot_is_noop[of "Some (example_connection\<lparr>slot := None\<rparr>)"]
    disconnect_without_slot_is_noop[of "Some example_connection"]
  by (simp add: example_connection_def)

section \<open>The ping send function\<close>

text \<open>
  Claim C10. Called with \<open>is_first_attempt = false\<close> on a connection that has a channel
  slot, \<open>s_pingreq_send\<close> writes no message to the channel and returns \<open>true\<close>, which
  ends the request; so the retry timer never retransmits a PINGREQ. The first attempt
  writes one PINGREQ or nothing.
\<close>

theorem pingreq_retry_writes_nothing:
  assumes "slot connection \<noteq> None"
  shows "(\<exists>c'. s_pingreq_send e msg_id False connection = Some (True, c')
            \<and> messages_sent c' = messages_sent connection)
         \<and> (\<exists>done c'. s_pingreq_send e msg_id True connection = Some (done, c')
            \<and> (messages_sent c' = messages_sent connection
                 \<or> messages_sent c' = messages_sent connection @ [Packet_pingreq]))"
  using assms
  by (auto simp: s_pingreq_send_def Let_def messages_sent_def mqtt_disconnect_impl_def
      release_message_def send_message_def)

theorem pingreq_retry_writes_nothing_witness:
  "slot example_connection \<noteq> None
   \<and> (\<exists>c'. s_pingreq_send example_env 1 False example_connection = Some (True, c')
           \<and> messages_sent c' = messages_sent example_connection)"
proof -
  have h: "slot example_connection \<noteq> None" by (simp add: example_connection_def)
  show ?thesis using h pingreq_retry_writes_nothing[OF h, of example_env 1] by blast
qed

lemma pingreq_timeout_coincides:
  fixes pingreq_sent last_resp timeout clock :: uint64_t
  assumes "unat pingreq_sent + unat timeout < 2 ^ 64"
    and "clock = pingreq_sent + timeout"
    and "last_resp \<le> clock"
  shows "(timeout < clock - last_resp) \<longleftrightarrow> \<not> pingresp_within_timeout pingreq_sent last_resp timeout"
proof -
  have a: "unat clock = unat pingreq_sent + unat timeout"
    using assms(1,2) by (simp add: unat_add_lem[THEN iffD1])
  have b: "unat (clock - last_resp) = unat clock - unat last_resp"
    using assms(3) by (simp add: unat_sub)
  have c: "unat last_resp \<le> unat clock"
    using assms(3) by (simp add: word_le_nat_alt)
  show ?thesis
    unfolding pingresp_within_timeout_def word_less_nat_alt b a using a c by auto
qed

lemma pingreq_timeout_check:
  assumes "slot connection \<noteq> None"
  shows "timeout_disconnect_issued connection (s_pingreq_send e msg_id False connection)
         \<longleftrightarrow> request_timeout_ns e < clock_time e - last_pingresp_timestamp connection"
  using assms
  by (auto simp: timeout_disconnect_issued_def s_pingreq_send_def Let_def
      mqtt_disconnect_impl_def)

text \<open>
  What the check computes. A non-first call of \<open>s_pingreq_send\<close> (on a connection with a
  slot) issues \<open>mqtt_disconnect_impl(TIMEOUT)\<close> exactly when the 64-bit difference
  between the current clock and \<open>last_pingresp_timestamp\<close> exceeds
  \<open>request_timeout_ns\<close>: the time of the PINGREQ send is stored nowhere and is taken
  to be the current time minus the timeout. The check therefore answers the question of
  the source comment (has a PINGRESP been received since the PINGREQ was sent) only when it
  runs exactly \<open>request_timeout_ns\<close> after the send (no clock wrap-around, last
  PINGRESP not in the future).
\<close>

lemma pingreq_timeout_measured_from_last_pingresp:
  assumes "slot connection \<noteq> None"
  shows "(timeout_disconnect_issued connection (s_pingreq_send e msg_id False connection)
           \<longleftrightarrow> request_timeout_ns e < clock_time e - last_pingresp_timestamp connection)
         \<and> (unat pingreq_sent + unat (request_timeout_ns e) < 2 ^ 64
            \<and> clock_time e = pingreq_sent + request_timeout_ns e
            \<and> last_pingresp_timestamp connection \<le> clock_time e
            \<longrightarrow> (timeout_disconnect_issued connection (s_pingreq_send e msg_id False connection)
                  \<longleftrightarrow> \<not> pingresp_within_timeout pingreq_sent
                          (last_pingresp_timestamp connection) (request_timeout_ns e)))"
  using pingreq_timeout_check[OF assms, of e msg_id]
    pingreq_timeout_coincides[of pingreq_sent "request_timeout_ns e" "clock_time e"
      "last_pingresp_timestamp connection"]
  by blast

lemma pingreq_timeout_on_time_check:
  "slot example_connection \<noteq> None
   \<and> unat (5000 :: uint64_t) + unat (request_timeout_ns (example_env\<lparr>clock_time := 6000\<rparr>)) < 2 ^ 64
   \<and> clock_time (example_env\<lparr>clock_time := 6000\<rparr>)
       = 5000 + request_timeout_ns (example_env\<lparr>clock_time := 6000\<rparr>)
   \<and> last_pingresp_timestamp example_connection \<le> clock_time (example_env\<lparr>clock_time := 6000\<rparr>)
   \<and> (timeout_disconnect_issued example_connection
         (s_pingreq_send (example_env\<lparr>clock_time := 6000\<rparr>) 1 False example_connection)
       \<longleftrightarrow> \<not> pingresp_within_timeout 5000 (last_pingresp_timestamp example_connection)
              (request_timeout_ns (example_env\<lparr>clock_time := 6000\<rparr>)))"
proof -
  have h: "slot example_connection \<noteq> None" by (simp add: example_connection_def)
  have g: "unat (5000 :: uint64_t) + unat (request_timeout_ns (example_env\<lparr>clock_time := 6000\<rparr>)) < 2 ^ 64
     \<and> clock_time (example_env\<lparr>clock_time := 6000\<rparr>)
         = 5000 + request_timeout_ns (example_env\<lparr>clock_time := 6000\<rparr>)
     \<and> last_pingresp_timestamp example_connection \<le> clock_time (example_env\<lparr>clock_time := 6000\<rparr>)"
    by (simp add: example_env_def example_connection_def)
  show ?thesis
    using h g pingreq_timeout_measured_from_last_pingresp[OF h,
        of "example_env\<lparr>clock_time := 6000\<rparr>" 1 5000]
    by blast
qed

text \<open>
  Claim C2. The code breaks the claim, and its own comment (\<open>Check that a pingresp has
  been recieved since pingreq was sent\<close>), when the check runs late. With a timeout of
  1000: the PINGREQ is sent at 5000, the PINGRESP is received at 5050 (since the send, and
  within the timeout of it), and the non-first call of \<open>s_pingreq_send\<close> runs at 6100
  instead of 6000. The code computes 6100 - 5050 = 1050 > 1000, calls
  \<open>mqtt_disconnect_impl(connection, AWS_ERROR_MQTT_TIMEOUT)\<close> and returns \<open>true\<close>.
\<close>

theorem pingreq_late_check_disconnects_despite_pingresp:
  "s_pingreq_send example_env 1 False example_connection
     = Some (True, mqtt_disconnect_impl example_connection
                     (Error_code_mqtt AWS_ERROR_MQTT_TIMEOUT))
   \<and> timeout_disconnect_issued example_connection
         (s_pingreq_send example_env 1 False example_connection)
   \<and> clock_time example_env = 6100 \<and> request_timeout_ns example_env = 1000
   \<and> last_pingresp_timestamp example_connection = 5050
   \<and> pingresp_within_timeout 5000 (last_pingresp_timestamp example_connection)
         (request_timeout_ns example_env)"
  by (simp add: timeout_disconnect_issued_def s_pingreq_send_def Let_def
      mqtt_disconnect_impl_def pingresp_within_timeout_def example_env_def
      example_connection_def)

section \<open>Packet-id allocation\<close>

lemma find_free_id_Some:
  "find_free_id n cur tbl = Some i \<Longrightarrow> tbl i = None \<and> i \<noteq> 0"
proof (induction n arbitrary: cur)
  case 0
  then show ?case by simp
next
  case (Suc n)
  then show ?case by (auto simp: Let_def split: if_splits)
qed

lemma find_free_id_unfold:
  "0 < n \<Longrightarrow> find_free_id n cur tbl =
     (let cand = (if cur + 1 = 0 then 1 else cur + 1)
      in if tbl cand = None then Some cand else find_free_id (n - 1) cand tbl)"
  by (cases n) (simp_all add: Let_def)

section \<open>Unsubscribe of an unknown filter\<close>

text \<open>
  Claim C1, as the code has it. \<open>aws_mqtt_client_unsubscribe\<close> with a filter that has no
  entry in the subscriptions table returns \<open>AWS_OP_ERR\<close>, whatever the outcome of its
  string allocation; no request is created and the connection is left as it was.
\<close>

theorem unsubscribe_unknown_filter_fails:
  assumes "subscriptions connection flt = None"
  shows "aws_mqtt_client_unsubscribe e connection flt = Some (AWS_OP_ERR, connection)"
  using assms by (simp add: aws_mqtt_client_unsubscribe_def)

theorem unsubscribe_unknown_filter_fails_witness:
  "subscriptions example_connection ''a/b'' = None
   \<and> aws_mqtt_client_unsubscribe example_env example_connection ''a/b''
       = Some (AWS_OP_ERR, example_connection)"
proof -
  have h: "subscriptions example_connection ''a/b'' = None"
    by (simp add: example_connection_def)
  show ?thesis
    using h unsubscribe_unknown_filter_fails[OF h, of example_env] by simp
qed

text \<open>
  The claim as stated fails: on a connection with an empty subscriptions table and every
  allocation succeeding, unsubscribing \<open>a/b\<close> does not return \<open>AWS_OP_SUCCESS\<close>.
\<close>

theorem unsubscribe_unknown_filter_counterexample:
  "subscriptions example_connection ''a/b'' = None
   \<and> map_option fst (aws_mqtt_client_unsubscribe example_env example_connection ''a/b'')
       = Some AWS_OP_ERR
   \<and> AWS_OP_ERR \<noteq> AWS_OP_SUCCESS"
  by (simp add: aws_mqtt_client_unsubscribe_def example_connection_def example_env_def)

section \<open>Subscribe\<close>

text \<open>
  The three guarded steps. When the allocation of the subscription record, the copy of the
  filter string or the insertion into the subscriptions table fails, the call returns
  \<open>AWS_OP_ERR\<close> and the connection, its subscriptions table included, is exactly as
  before: at each of these points nothing has been inserted yet, and the removal under
  \<open>handle_error\<close> (guarded by \<open>was_created\<close>) is never taken.
\<close>

lemma subscribe_failure_leaves_table_unchanged:
  assumes "\<not> mem_acquire_ok e \<or> \<not> string_new_ok e \<or> \<not> hash_table_put_ok e"
  shows "aws_mqtt_client_subscribe e connection sub cb ud = Some (AWS_OP_ERR, connection)"
  using assms
  by (auto simp: aws_mqtt_client_subscribe_def subscribe_handle_error_def
      aws_hash_table_put_def Let_def)

lemma subscribe_guarded_steps_examples:
  "aws_mqtt_client_subscribe (example_env\<lparr>mem_acquire_ok := False\<rparr>) example_connection
       \<lparr>topic_filter = ''a/b'', sub_qos = AWS_MQTT_QOS_AT_LEAST_ONCE\<rparr> 1 2
     = Some (AWS_OP_ERR, example_connection)
   \<and> aws_mqtt_client_subscribe (example_env\<lparr>string_new_ok := False\<rparr>) example_connection
       \<lparr>topic_filter = ''a/b'', sub_qos = AWS_MQTT_QOS_AT_LEAST_ONCE\<rparr> 1 2
     = Some (AWS_OP_ERR, example_connection)
   \<and> aws_mqtt_client_subscribe (example_env\<lparr>hash_table_put_ok := False\<rparr>) example_connection
       \<lparr>topic_filter = ''a/b'', sub_qos = AWS_MQTT_QOS_AT_LEAST_ONCE\<rparr> 1 2
     = Some (AWS_OP_ERR, example_connection)"
  using
    subscribe_failure_leaves_table_unchanged[of "example_env\<lparr>mem_acquire_ok := False\<rparr>"]
    subscribe_failure_leaves_table_unchanged[of "example_env\<lparr>string_new_ok := False\<rparr>"]
    subscribe_failure_leaves_table_unchanged[of "example_env\<lparr>hash_table_put_ok := False\<rparr>"]
  by simp

text \<open>
  The fourth fallible step is the creation of the request: \<open>mqtt_create_request\<close> returns
  0 on error, and the source discards that result. When the request cannot be acquired the
  call returns \<open>AWS_OP_SUCCESS\<close> and the subscription stays in the table, although no
  SUBSCRIBE request exists for it.
\<close>

lemma subscribe_request_failure_keeps_subscription:
  assumes "mem_acquire_ok e" "string_new_ok e" "hash_table_put_ok e"
    and "\<not> request_acquire_ok e"
  shows "aws_mqtt_client_subscribe e connection sub cb ud =
           Some (AWS_OP_SUCCESS,
             connection\<lparr>subscriptions := (subscriptions connection)(topic_filter sub \<mapsto>
               \<lparr>callback = cb, user_data = ud, filter_str = topic_filter sub,
                subscription = \<lparr>topic_filter = topic_filter sub, sub_qos = sub_qos sub\<rparr>\<rparr>)\<rparr>)"
  using assms
  by (simp add: aws_mqtt_client_subscribe_def aws_hash_table_put_def Let_def
      mqtt_create_request_def)

text \<open>
  Claim C6. The code breaks the claim when the allocation that fails is the one inside
  \<open>mqtt_create_request\<close>. On \<open>example_connection\<close> (empty subscriptions table), with
  every other step succeeding, subscribing to \<open>a/b\<close> returns \<open>AWS_OP_SUCCESS\<close>, not
  \<open>AWS_OP_ERR\<close>, the subscription is left in the table, and no request was registered
  and nothing was written.
\<close>

theorem subscribe_request_failure_not_surfaced:
  "aws_mqtt_client_subscribe (example_env\<lparr>request_acquire_ok := False\<rparr>) example_connection
       \<lparr>topic_filter = ''a/b'', sub_qos = AWS_MQTT_QOS_AT_LEAST_ONCE\<rparr> 1 2
     = Some (AWS_OP_SUCCESS,
         example_connection\<lparr>subscriptions :=
           [''a/b'' \<mapsto> \<lparr>callback = 1, user_data = 2, filter_str = ''a/b'',
                        subscription = \<lparr>topic_filter = ''a/b'',
                                        sub_qos = AWS_MQTT_QOS_AT_LEAST_ONCE\<rparr>\<rparr>]\<rparr>)
   \<and> subscriptions example_connection ''a/b'' = None
   \<and> outstanding_requests example_connection = Map.empty
   \<and> events example_connection = []"
  by (simp add: aws_mqtt_client_subscribe_def aws_hash_table_put_def Let_def
      mqtt_create_request_def example_env_def example_connection_def)

lemma create_subscribe_request:
  assumes "state c = AWS_MQTT_CLIENT_STATE_CONNECTED \<longrightarrow> slot c \<noteq> None"
  shows "\<exists>i c'. mqtt_create_request e c S_subscribe_send None (Ud_subscription_impl impl)
                  = Some (i, c')
            \<and> subscriptions c' = subscriptions c"
proof (cases "request_acquire_ok e")
  case False
  then show ?thesis by (simp add: mqtt_create_request_def)
next
  case True
  show ?thesis
  proof (cases "find_free_id 65535 (request_id_counter c) (outstanding_requests c)")
    case None
    then show ?thesis using True by (simp add: mqtt_create_request_def)
  next
    case (Some j)
    show ?thesis
    proof (cases "state c = AWS_MQTT_CLIENT_STATE_CONNECTED")
      case False
      then show ?thesis using True Some by (simp add: mqtt_create_request_def Let_def)
    next
      case c: True
      then have "slot c \<noteq> None" using assms by simp
      then show ?thesis using True Some c
        by (auto simp: mqtt_create_request_def Let_def request_invoke_def request_finish_def
            s_subscribe_send_def release_message_def send_message_def)
    qed
  qed
qed

text \<open>
  Claim C5, as the code has it. \<open>aws_mqtt_client_subscribe\<close> never looks at the
  characters of the filter: for every filter, well-formed or not, when its allocations and
  the table insertion succeed (and the connection, if CONNECTED, has its channel slot) it
  returns \<open>AWS_OP_SUCCESS\<close> and the subscriptions table holds the new subscription under
  that filter.
\<close>

theorem subscribe_accepts_every_filter:
  assumes "mem_acquire_ok e" "string_new_ok e" "hash_table_put_ok e"
    and "state connection = AWS_MQTT_CLIENT_STATE_CONNECTED \<longrightarrow> slot connection \<noteq> None"
  shows "\<exists>c'. aws_mqtt_client_subscribe e connection sub cb ud = Some (AWS_OP_SUCCESS, c')
           \<and> subscriptions c' = (subscriptions connection)(topic_filter sub \<mapsto>
                \<lparr>callback = cb, user_data = ud, filter_str = topic_filter sub,
                 subscription = \<lparr>topic_filter = topic_filter sub, sub_qos = sub_qos sub\<rparr>\<rparr>)"
proof -
  define impl where "impl = \<lparr>callback = cb, user_data = ud, filter_str = topic_filter sub,
                 subscription = \<lparr>topic_filter = topic_filter sub, sub_qos = sub_qos sub\<rparr>\<rparr>"
  define c1 where
    "c1 = connection\<lparr>subscriptions := (subscriptions connection)(topic_filter sub \<mapsto> impl)\<rparr>"
  have "state c1 = AWS_MQTT_CLIENT_STATE_CONNECTED \<longrightarrow> slot c1 \<noteq> None"
    using assms(4) by (simp add: c1_def)
  from create_subscribe_request[OF this, of e impl]
  obtain i c' where
    r: "mqtt_create_request e c1 S_subscribe_send None (Ud_subscription_impl impl) = Some (i, c')"
    and s: "subscriptions c' = subscriptions c1" by blast
  have f: "filter_str impl = topic_filter sub" by (simp add: impl_def)
  have "aws_mqtt_client_subscribe e connection sub cb ud = Some (AWS_OP_SUCCESS, c')"
    using assms(1-3) r
    by (simp add: aws_mqtt_client_subscribe_def aws_hash_table_put_def Let_def
        impl_def[symmetric] f c1_def[symmetric])
  then show ?thesis using s by (simp add: c1_def impl_def)
qed

theorem subscribe_accepts_every_filter_witness:
  "mem_acquire_ok example_env \<and> string_new_ok example_env \<and> hash_table_put_ok example_env
   \<and> slot example_connection \<noteq> None
   \<and> filter_malformed ''a/#/b''
   \<and> (\<exists>c'. aws_mqtt_client_subscribe example_env example_connection
              \<lparr>topic_filter = ''a/#/b'', sub_qos = AWS_MQTT_QOS_AT_LEAST_ONCE\<rparr> 1 2
            = Some (AWS_OP_SUCCESS, c')
          \<and> subscriptions c' ''a/#/b'' =
              Some \<lparr>callback = 1, user_data = 2, filter_str = ''a/#/b'',
                    subscription = \<lparr>topic_filter = ''a/#/b'',
                                    sub_qos = AWS_MQTT_QOS_AT_LEAST_ONCE\<rparr>\<rparr>)"
proof -
  have h: "mem_acquire_ok example_env" "string_new_ok example_env"
    "hash_table_put_ok example_env"
    by (simp_all add: example_env_def)
  have k: "slot example_connection \<noteq> None" by (simp add: example_connection_def)
  then have k': "state example_connection = AWS_MQTT_CLIENT_STATE_CONNECTED
                 \<longrightarrow> slot example_connection \<noteq> None" by simp
  have m: "filter_malformed ''a/#/b''"
    by (simp add: filter_malformed_def wildcard_mid_level_def)
  from subscribe_accepts_every_filter[OF h k',
      of "\<lparr>topic_filter = ''a/#/b'', sub_qos = AWS_MQTT_QOS_AT_LEAST_ONCE\<rparr>" 1 2]
  obtain c' where "aws_mqtt_client_subscribe example_env example_connection
              \<lparr>topic_filter = ''a/#/b'', sub_qos = AWS_MQTT_QOS_AT_LEAST_ONCE\<rparr> 1 2
            = Some (AWS_OP_SUCCESS, c')"
    and "subscriptions c' ''a/#/b'' =
              Some \<lparr>callback = 1, user_data = 2, filter_str = ''a/#/b'',
                    subscription = \<lparr>topic_filter = ''a/#/b'',
                                    sub_qos = AWS_MQTT_QOS_AT_LEAST_ONCE\<rparr>\<rparr>"
    by auto
  then show ?thesis using h k m by blast
qed

text \<open>
  The claim as stated fails: the filters \<open>a/#/b\<close> (\<open>#\<close> not final) and \<open>a+/b\<close>
  (wildcard inside a level) are malformed, and subscribing to \<open>a/#/b\<close> returns
  \<open>AWS_OP_SUCCESS\<close>.
\<close>

theorem subscribe_malformed_filter_counterexample:
  "filter_malformed ''a/#/b'' \<and> filter_malformed ''a+/b''
   \<and> map_option fst (aws_mqtt_client_subscribe example_env example_connection
        \<lparr>topic_filter = ''a/#/b'', sub_qos = AWS_MQTT_QOS_AT_LEAST_ONCE\<rparr> 1 2)
       = Some AWS_OP_SUCCESS
   \<and> map_option fst (aws_mqtt_client_subscribe example_env example_connection
        \<lparr>topic_filter = ''a+/b'', sub_qos = AWS_MQTT_QOS_AT_LEAST_ONCE\<rparr> 1 2)
       = Some AWS_OP_SUCCESS"
  by (simp add: filter_malformed_def wildcard_mid_level_def aws_mqtt_client_subscribe_def
      aws_hash_table_put_def Let_def mqtt_create_request_def find_free_id_unfold
      request_invoke_def s_subscribe_send_def send_message_def example_env_def
      example_connection_def)

section \<open>What the tracker does to the outstanding-request index\<close>

lemma call_send_request_outstanding:
  "call_send_request e f i first ud c = Some (d, c') \<Longrightarrow>
     outstanding_requests c' = outstanding_requests c"
  by (cases "(e, f, i, first, ud, c)" rule: call_send_request.cases)
     (auto simp: s_subscribe_send_def s_unsubscribe_send_def s_publish_send_def s_pingreq_send_def
        remove_subscription_def release_message_def send_message_def mqtt_disconnect_impl_def Let_def
        split: if_splits)

lemma call_on_complete_outstanding:
  "call_on_complete f ud c = Some c' \<Longrightarrow> outstanding_requests c' = outstanding_requests c"
  by (cases "(f, ud, c)" rule: call_on_complete.cases)
     (auto simp: s_publish_complete_def split: option.splits)

lemma request_finish_outstanding:
  "request_finish c i = Some c' \<Longrightarrow>
     outstanding_requests c' = (outstanding_requests c)(i := None)"
  by (auto simp: request_finish_def Let_def fun_upd_idem dest!: call_on_complete_outstanding split: option.splits)

lemma request_invoke_outstanding:
  assumes "request_invoke e c i first = Some c'"
  shows "outstanding_requests c' = (outstanding_requests c)(i := None) \<or>
         (\<exists>r. outstanding_requests c i = Some r \<and>
           outstanding_requests c' = (outstanding_requests c)(i \<mapsto> r\<lparr>initiated := True\<rparr>))"
proof (cases "outstanding_requests c i")
  case None
  then show ?thesis using assms by (simp add: request_invoke_def fun_upd_idem)
next
  case (Some r)
  then obtain d c1 where s: "call_send_request e (send_request r) i first (send_request_ud r) c = Some (d, c1)"
    using assms by (auto simp: request_invoke_def split: option.splits)
  have o: "outstanding_requests c1 = outstanding_requests c"
    using s by (rule call_send_request_outstanding)
  show ?thesis
  proof (cases d)
    case True
    then have "request_finish c1 i = Some c'" using assms Some s by (simp add: request_invoke_def)
    then show ?thesis using o by (simp add: request_finish_outstanding)
  next
    case False
    then have "c' = c1\<lparr>outstanding_requests := (outstanding_requests c1)(i \<mapsto> r\<lparr>initiated := True\<rparr>),
                              pending_requests := removeAll i (pending_requests c1)\<rparr>"
      using assms Some s by (simp add: request_invoke_def)
    then show ?thesis using o Some by simp
  qed
qed

lemma mqtt_create_request_new_entry:
  assumes "mqtt_create_request e c f oc ud = Some (i, c')"
    and "outstanding_requests c' k = Some r" and "outstanding_requests c k = None"
  shows "k = i \<and> k \<noteq> 0 \<and> message_id r = k \<and> send_request r = f \<and> send_request_ud r = ud
         \<and> req_on_complete r = oc"
proof (cases "request_acquire_ok e")
  case False
  then show ?thesis using assms by (simp add: mqtt_create_request_def)
next
  case True
  show ?thesis
  proof (cases "find_free_id 65535 (request_id_counter c) (outstanding_requests c)")
    case None
    then show ?thesis using assms True by (simp add: mqtt_create_request_def)
  next
    case (Some j)
    define r0 where "r0 = \<lparr>message_id = j, initiated = False, completed = False, cancelled = False,
                       send_request = f, send_request_ud = ud, req_on_complete = oc\<rparr>"
    define c1 where "c1 = c\<lparr>outstanding_requests := (outstanding_requests c)(j \<mapsto> r0),
                         request_id_counter := j\<rparr>"
    have j: "j \<noteq> 0" using find_free_id_Some[OF Some] by simp
    have o1: "outstanding_requests c1 = (outstanding_requests c)(j \<mapsto> r0)" by (simp add: c1_def)
    show ?thesis
    proof (cases "state c = AWS_MQTT_CLIENT_STATE_CONNECTED")
      case False
      then have "i = j \<and> c' = c1\<lparr>pending_requests := pending_requests c1 @ [j]\<rparr>"
        using assms(1) True Some by (auto simp: mqtt_create_request_def Let_def c1_def r0_def)
      then show ?thesis using assms(2,3) j o1 by (auto simp: r0_def split: if_splits)
    next
      case c: True
      then have "i = j \<and> request_invoke e c1 j True = Some c'"
        using assms(1) True Some by (auto simp: mqtt_create_request_def Let_def c1_def r0_def)
      then have "i = j" and "outstanding_requests c' = (outstanding_requests c1)(j := None) \<or>
         outstanding_requests c' = (outstanding_requests c1)(j \<mapsto> r0\<lparr>initiated := True\<rparr>)"
        using request_invoke_outstanding[of e c1 j True c'] o1 by auto
      then show ?thesis using assms(2,3) j o1 by (auto simp: r0_def split: if_splits)
    qed
  qed
qed

section \<open>Ping\<close>

text \<open>
  Claim C4, as the code has it. \<open>aws_mqtt_client_ping\<close> passes NULL as the completion
  callback: the call returns \<open>AWS_OP_SUCCESS\<close>, every request it adds to the
  outstanding-request index carries the send function \<open>s_pingreq_send\<close> and no
  \<open>on_complete\<close>, and completing such a request (the PINGRESP arriving) only removes it:
  the recorded events stay as they are, so no callback fires.
\<close>

theorem ping_registers_no_callback:
  assumes "aws_mqtt_client_ping e connection = Some (rc, c')"
  shows "rc = AWS_OP_SUCCESS
     \<and> (\<forall>i r. outstanding_requests c' i = Some r \<and> outstanding_requests connection i = None \<longrightarrow>
           send_request r = S_pingreq_send \<and> req_on_complete r = None
           \<and> mqtt_request_complete c' code i =
               Some (c'\<lparr>outstanding_requests := (outstanding_requests c')(i := None),
                        pending_requests := removeAll i (pending_requests c')\<rparr>))"
proof -
  obtain j where r: "mqtt_create_request e connection S_pingreq_send None Ud_connection = Some (j, c')"
    and rc: "rc = AWS_OP_SUCCESS"
    using assms by (auto simp: aws_mqtt_client_ping_def split: option.splits)
  show ?thesis using rc mqtt_create_request_new_entry[OF r]
    by (auto simp: mqtt_request_complete_def request_finish_def Let_def)
qed

theorem ping_registers_no_callback_witness:
  "aws_mqtt_client_ping example_env example_connection = Some (AWS_OP_SUCCESS, example_ping_sent)
   \<and> outstanding_requests example_ping_sent 1 = Some (example_ping_request 1 True)
   \<and> outstanding_requests example_connection 1 = None
   \<and> send_request (example_ping_request 1 True) = S_pingreq_send
   \<and> req_on_complete (example_ping_request 1 True) = None
   \<and> mqtt_request_complete example_ping_sent Error_code_0 1 =
       Some (example_ping_sent\<lparr>
               outstanding_requests := (outstanding_requests example_ping_sent)(1 := None),
               pending_requests := removeAll 1 (pending_requests example_ping_sent)\<rparr>)"
proof -
  have h: "aws_mqtt_client_ping example_env example_connection
             = Some (AWS_OP_SUCCESS, example_ping_sent)"
    by (simp add: aws_mqtt_client_ping_def mqtt_create_request_def find_free_id_unfold Let_def
        request_invoke_def s_pingreq_send_def send_message_def example_ping_sent_def
        example_ping_request_def example_env_def example_connection_def)
  have a: "outstanding_requests example_ping_sent 1 = Some (example_ping_request 1 True)"
    "outstanding_requests example_connection 1 = None"
    by (simp_all add: example_ping_sent_def example_connection_def)
  show ?thesis
    using h a ping_registers_no_callback[OF h, of Error_code_0] by blast
qed

text \<open>
  The claim as stated fails: the request created by a ping on \<open>example_connection\<close>
  has no completion callback, and when it is completed the only recorded event is still
  the PINGREQ write.
\<close>

theorem ping_callback_counterexample:
  "aws_mqtt_client_ping example_env example_connection = Some (AWS_OP_SUCCESS, example_ping_sent)
   \<and> map_option req_on_complete (outstanding_requests example_ping_sent 1) = Some None
   \<and> map_option events (mqtt_request_complete example_ping_sent Error_code_0 1)
       = Some [Message_sent Packet_pingreq]"
  by (simp add: aws_mqtt_client_ping_def mqtt_create_request_def find_free_id_unfold Let_def
      request_invoke_def s_pingreq_send_def send_message_def mqtt_request_complete_def
      request_finish_def example_ping_sent_def example_ping_request_def example_env_def
      example_connection_def)

section \<open>QoS 0 publish\<close>

text \<open>
  Claim C3. When the message can be acquired, encoded and written (on a connection with a
  channel slot): for a QoS 0 argument \<open>s_publish_send\<close> writes a PUBLISH packet whose
  message id is 0, whatever id it was called with, and returns \<open>true\<close> (request done);
  and \<open>aws_mqtt_client_publish\<close> with QoS 0 on a CONNECTED connection, the tracker having
  found the free id \<open>i\<close>, returns \<open>AWS_OP_SUCCESS\<close> leaving the outstanding-request
  index as it was, with the write recorded first and the call of the user's
  \<open>on_complete\<close> (if one was given) right after it.
\<close>

theorem qos0_publish_fire_and_forget:
  assumes "slot c \<noteq> None" "get_message_ok e" "encode_ok e" "send_message_ok e"
  shows "(qos arg = AWS_MQTT_QOS_AT_MOST_ONCE \<longrightarrow>
            s_publish_send e msg_id first arg c =
              Some (True, send_message c (Packet_publish (retain arg) AWS_MQTT_QOS_AT_MOST_ONCE
                      (\<not> first) (topic arg) 0 (payload arg))))
       \<and> (state c = AWS_MQTT_CLIENT_STATE_CONNECTED \<and> mem_acquire_ok e \<and> request_acquire_ok e
          \<and> find_free_id 65535 (request_id_counter c) (outstanding_requests c) = Some i \<longrightarrow>
            aws_mqtt_client_publish e c tp AWS_MQTT_QOS_AT_MOST_ONCE rt pl oc ud =
              Some (AWS_OP_SUCCESS,
                c\<lparr>request_id_counter := i, pending_requests := removeAll i (pending_requests c),
                  events := events c @ Message_sent (Packet_publish rt AWS_MQTT_QOS_AT_MOST_ONCE False tp 0 pl)
                     # (case oc of Some f \<Rightarrow> [Publish_on_complete f ud] | None \<Rightarrow> [])\<rparr>))"
proof -
  have a: "qos arg = AWS_MQTT_QOS_AT_MOST_ONCE \<longrightarrow>
            s_publish_send e msg_id first arg c =
              Some (True, send_message c (Packet_publish (retain arg) AWS_MQTT_QOS_AT_MOST_ONCE
                      (\<not> first) (topic arg) 0 (payload arg)))"
    using assms by (auto simp: s_publish_send_def Let_def)
  have b: "aws_mqtt_client_publish e c tp AWS_MQTT_QOS_AT_MOST_ONCE rt pl oc ud =
              Some (AWS_OP_SUCCESS,
                c\<lparr>request_id_counter := i, pending_requests := removeAll i (pending_requests c),
                  events := events c @ Message_sent (Packet_publish rt AWS_MQTT_QOS_AT_MOST_ONCE False tp 0 pl)
                     # (case oc of Some f \<Rightarrow> [Publish_on_complete f ud] | None \<Rightarrow> [])\<rparr>)"
    if h: "state c = AWS_MQTT_CLIENT_STATE_CONNECTED" "mem_acquire_ok e" "request_acquire_ok e"
          "find_free_id 65535 (request_id_counter c) (outstanding_requests c) = Some i"
  proof -
    have n: "outstanding_requests c i = None" using find_free_id_Some[OF h(4)] by simp
    show ?thesis using assms h n
      by (simp add: aws_mqtt_client_publish_def mqtt_create_request_def Let_def request_invoke_def
          s_publish_send_def send_message_def request_finish_def s_publish_complete_def fun_upd_idem
          split: option.splits)
  qed
  show ?thesis using a b by blast
qed

theorem qos0_publish_fire_and_forget_witness:
  "slot example_connection \<noteq> None \<and> get_message_ok example_env \<and> encode_ok example_env
   \<and> send_message_ok example_env
   \<and> qos example_publish_arg = AWS_MQTT_QOS_AT_MOST_ONCE
   \<and> s_publish_send example_env 7 True example_publish_arg example_connection =
        Some (True, send_message example_connection
                (Packet_publish (retain example_publish_arg) AWS_MQTT_QOS_AT_MOST_ONCE False
                   (topic example_publish_arg) 0 (payload example_publish_arg)))
   \<and> state example_connection = AWS_MQTT_CLIENT_STATE_CONNECTED
   \<and> mem_acquire_ok example_env \<and> request_acquire_ok example_env
   \<and> find_free_id 65535 (request_id_counter example_connection)
        (outstanding_requests example_connection) = Some 1
   \<and> aws_mqtt_client_publish example_env example_connection ''t'' AWS_MQTT_QOS_AT_MOST_ONCE
        False ''p'' (Some 3) 4 =
        Some (AWS_OP_SUCCESS,
          example_connection\<lparr>request_id_counter := 1,
            pending_requests := removeAll 1 (pending_requests example_connection),
            events := events example_connection
              @ [Message_sent (Packet_publish False AWS_MQTT_QOS_AT_MOST_ONCE False ''t'' 0 ''p''),
                 Publish_on_complete 3 4]\<rparr>)"
proof -
  have h: "slot example_connection \<noteq> None" "get_message_ok example_env"
    "encode_ok example_env" "send_message_ok example_env"
    by (simp_all add: example_connection_def example_env_def)
  have q: "qos example_publish_arg = AWS_MQTT_QOS_AT_MOST_ONCE"
    by (simp add: example_publish_arg_def)
  have k: "state example_connection = AWS_MQTT_CLIENT_STATE_CONNECTED"
    "mem_acquire_ok example_env" "request_acquire_ok example_env"
    by (simp_all add: example_connection_def example_env_def)
  have f: "find_free_id 65535 (request_id_counter example_connection)
        (outstanding_requests example_connection) = Some 1"
    by (simp add: find_free_id_unfold example_connection_def)
  show ?thesis
    using h q k f
      qos0_publish_fire_and_forget[OF h, of example_publish_arg 7 True 1
        "''t''" False "''p''" "Some 3" 4]
    by simp
qed

section \<open>The invariant of the outstanding-request index\<close>

lemma requests_inv_cong:
  "outstanding_requests c' = outstanding_requests c \<Longrightarrow> requests_inv c' = requests_inv c"
  by (simp add: requests_inv_def)

lemma request_finish_inv:
  "requests_inv c \<Longrightarrow> request_finish c i = Some c' \<Longrightarrow> requests_inv c'"
  by (drule request_finish_outstanding) (auto simp: requests_inv_def split: if_splits)

lemma request_invoke_inv:
  assumes "requests_inv c" "request_invoke e c i first = Some c'"
  shows "requests_inv c'"
proof (cases "outstanding_requests c i")
  case None
  then show ?thesis using assms by (simp add: request_invoke_def)
next
  case (Some r)
  then obtain d c1 where s: "call_send_request e (send_request r) i first (send_request_ud r) c = Some (d, c1)"
    using assms(2) by (auto simp: request_invoke_def split: option.splits)
  have o: "outstanding_requests c1 = outstanding_requests c"
    using s by (rule call_send_request_outstanding)
  have i1: "requests_inv c1" using assms(1) unfolding requests_inv_def o .
  show ?thesis
  proof (cases d)
    case True
    then have "request_finish c1 i = Some c'" using assms(2) Some s by (simp add: request_invoke_def)
    then show ?thesis using i1 by (rule request_finish_inv[rotated])
  next
    case False
    then have "c' = c1\<lparr>outstanding_requests := (outstanding_requests c1)(i \<mapsto> r\<lparr>initiated := True\<rparr>),
                              pending_requests := removeAll i (pending_requests c1)\<rparr>"
      using assms(2) Some s by (simp add: request_invoke_def)
    moreover have "i \<noteq> 0 \<and> message_id r = i" using assms(1) Some by (simp add: requests_inv_def)
    ultimately show ?thesis using i1 by (auto simp: requests_inv_def)
  qed
qed

lemma mqtt_create_request_inv:
  assumes "requests_inv c" "mqtt_create_request e c f oc ud = Some (i, c')"
  shows "requests_inv c'"
proof (cases "request_acquire_ok e")
  case False
  then show ?thesis using assms by (simp add: mqtt_create_request_def)
next
  case True
  show ?thesis
  proof (cases "find_free_id 65535 (request_id_counter c) (outstanding_requests c)")
    case None
    then show ?thesis using assms True by (simp add: mqtt_create_request_def)
  next
    case (Some j)
    define r where "r = \<lparr>message_id = j, initiated = False, completed = False, cancelled = False,
                       send_request = f, send_request_ud = ud, req_on_complete = oc\<rparr>"
    define c1 where "c1 = c\<lparr>outstanding_requests := (outstanding_requests c)(j \<mapsto> r),
                         request_id_counter := j\<rparr>"
    have j: "j \<noteq> 0" using find_free_id_Some[OF Some] by simp
    have i1: "requests_inv c1" using assms(1) j by (auto simp: requests_inv_def c1_def r_def)
    show ?thesis
    proof (cases "state c = AWS_MQTT_CLIENT_STATE_CONNECTED")
      case False
      then have "c' = c1\<lparr>pending_requests := pending_requests c1 @ [j]\<rparr>"
        using assms(2) True Some by (auto simp: mqtt_create_request_def Let_def c1_def r_def)
      then show ?thesis using i1 by (simp add: requests_inv_def)
    next
      case c: True
      then have "request_invoke e c1 j True = Some c'"
        using assms(2) True Some by (auto simp: mqtt_create_request_def Let_def c1_def r_def)
      then show ?thesis using i1 by (rule request_invoke_inv[rotated])
    qed
  qed
qed


lemma requests_inv_disconnect:
  "requests_inv (mqtt_disconnect_impl c code) = requests_inv c"
  by (simp add: requests_inv_def mqtt_disconnect_impl_def)

lemma requests_inv_fsm:
  "requests_inv (c\<lparr>state := st, slot := sl, last_pingresp_timestamp := t\<rparr>) = requests_inv c"
  by (simp add: requests_inv_def)

lemma apply_operation_inv:
  assumes "requests_inv c" "apply_operation x c = Some c'"
  shows "requests_inv c'"
proof (cases x)
  case (Op_subscribe e sub cb ud)
  show ?thesis
  proof (cases "mem_acquire_ok e \<and> string_new_ok e \<and> hash_table_put_ok e")
    case False
    then have "aws_mqtt_client_subscribe e c sub cb ud = Some (AWS_OP_ERR, c)"
      by (auto simp: aws_mqtt_client_subscribe_def subscribe_handle_error_def
      aws_hash_table_put_def Let_def)
    then show ?thesis using assms Op_subscribe by simp
  next
    case True
    define impl where "impl = \<lparr>callback = cb, user_data = ud, filter_str = topic_filter sub,
                 subscription = \<lparr>topic_filter = topic_filter sub, sub_qos = sub_qos sub\<rparr>\<rparr>"
    define c1 where
      "c1 = c\<lparr>subscriptions := (subscriptions c)(topic_filter sub \<mapsto> impl)\<rparr>"
    have i1: "requests_inv c1" using assms(1) by (simp add: requests_inv_def c1_def)
    obtain i where
      "mqtt_create_request e c1 S_subscribe_send None (Ud_subscription_impl impl) = Some (i, c')"
      using assms(2) Op_subscribe True
      by (auto simp: aws_mqtt_client_subscribe_def aws_hash_table_put_def Let_def c1_def impl_def
          split: option.splits)
    with i1 show ?thesis by (rule mqtt_create_request_inv)
  qed
next
  case (Op_unsubscribe e flt)
  then show ?thesis using assms
    by (auto simp: aws_mqtt_client_unsubscribe_def split: option.splits if_splits
        dest: mqtt_create_request_inv)
next
  case (Op_publish e tp q rt pl oc ud)
  then show ?thesis using assms
    by (auto simp: aws_mqtt_client_publish_def Let_def split: option.splits if_splits
        dest: mqtt_create_request_inv)
next
  case (Op_ping e)
  then show ?thesis using assms
    by (auto simp: aws_mqtt_client_ping_def split: option.splits dest: mqtt_create_request_inv)
next
  case Op_disconnect
  then show ?thesis using assms
    by (auto simp: aws_mqtt_client_connection_disconnect_def requests_inv_disconnect
        split: if_splits)
next
  case (Op_request_complete code i)
  then show ?thesis using assms by (auto simp: mqtt_request_complete_def dest: request_finish_inv)
next
  case (Op_request_invoke e i first)
  then show ?thesis using assms by (auto dest: request_invoke_inv)
next
  case (Op_fsm st sl t)
  then show ?thesis using assms by (auto simp: requests_inv_fsm)
qed

lemma run_inv: "requests_inv c \<Longrightarrow> run ops c = Some c' \<Longrightarrow> requests_inv c'"
proof (induction ops arbitrary: c)
  case Nil
  then show ?case by simp
next
  case (Cons x xs)
  then show ?case by (auto split: option.splits dest: apply_operation_inv)
qed

lemma new_connection_inv:
  "aws_mqtt_client_connection_new ne cid clean ka = Some c \<Longrightarrow> requests_inv c"
  by (auto simp: aws_mqtt_client_connection_new_def requests_inv_def split: if_splits)

text \<open>
  Claim C8. In every state reached from a newly created connection by any sequence of
  operations, every entry of the outstanding-request index is stored under its own
  message id, that id is not 0, and two different entries have different message ids.
  Moreover creating a request and completing a request each preserve the invariant from
  any state that satisfies it.
\<close>

theorem outstanding_requests_ids_unique_nonzero:
  assumes "aws_mqtt_client_connection_new ne cid clean ka = Some c0" and "run ops c0 = Some c"
  shows "requests_inv c
       \<and> (\<forall>i r. outstanding_requests c i = Some r \<longrightarrow> message_id r = i \<and> message_id r \<noteq> 0)
       \<and> (\<forall>i j r s. outstanding_requests c i = Some r \<and> outstanding_requests c j = Some s \<and> i \<noteq> j
             \<longrightarrow> message_id r \<noteq> message_id s)
       \<and> (requests_inv d \<and> (mqtt_create_request e d f oc ud = Some (k, d')
                             \<or> mqtt_request_complete d code k = Some d') \<longrightarrow> requests_inv d')"
proof -
  have z: "requests_inv c" using new_connection_inv[OF assms(1)] assms(2) by (rule run_inv)
  then have a: "\<forall>i r. outstanding_requests c i = Some r \<longrightarrow> message_id r = i \<and> message_id r \<noteq> 0"
    by (auto simp: requests_inv_def)
  then have b: "\<forall>i j r s. outstanding_requests c i = Some r \<and> outstanding_requests c j = Some s \<and> i \<noteq> j
             \<longrightarrow> message_id r \<noteq> message_id s" by metis
  have c: "requests_inv d \<and> (mqtt_create_request e d f oc ud = Some (k, d')
                             \<or> mqtt_request_complete d code k = Some d') \<longrightarrow> requests_inv d'"
    using mqtt_create_request_inv[of d e f oc ud k d'] request_finish_inv[of d k d']
    by (auto simp: mqtt_request_complete_def)
  show ?thesis using z a b c by blast
qed

theorem outstanding_requests_ids_unique_nonzero_witness:
  "aws_mqtt_client_connection_new example_new_env ''client'' True 5 = Some example_new_connection
   \<and> run [Op_ping example_env, Op_ping example_env] example_new_connection
       = Some example_two_pings
   \<and> outstanding_requests example_two_pings 1 = Some (example_ping_request 1 False)
   \<and> outstanding_requests example_two_pings 2 = Some (example_ping_request 2 False)
   \<and> requests_inv example_two_pings
   \<and> message_id (example_ping_request 1 False) \<noteq> message_id (example_ping_request 2 False)
   \<and> message_id (example_ping_request 1 False) \<noteq> 0"
proof -
  have a: "aws_mqtt_client_connection_new example_new_env ''client'' True 5
             = Some example_new_connection"
    by (simp add: aws_mqtt_client_connection_new_def example_new_env_def
        example_new_connection_def)
  have b: "run [Op_ping example_env, Op_ping example_env] example_new_connection
             = Some example_two_pings"
    by (simp add: aws_mqtt_client_ping_def mqtt_create_request_def find_free_id_unfold Let_def
        example_two_pings_def example_ping_request_def example_env_def
        example_new_connection_def)
  have c: "outstanding_requests example_two_pings 1 = Some (example_ping_request 1 False)"
    "outstanding_requests example_two_pings 2 = Some (example_ping_request 2 False)"
    by (simp_all add: example_two_pings_def)
  have d: "(1 :: uint16_t) \<noteq> 2" by simp
  show ?thesis
    using a b c d outstanding_requests_ids_unique_nonzero[OF a b]
    by blast
qed

end
